theory Spec2Isabelle
  imports Complex_Main "HOL-Library.Char_ord" "HOL-Library.List_Lexorder"
begin

section \<open>STIMPL: the interpreter state and the evaluator of \<open>stimpl/runtime.py\<close>\<close>

subsection \<open>Types, values and expressions\<close>

text \<open>
  Modelled from the spec: the classes of \<open>stimpl.types\<close> (\<open>Unit\<close>, \<open>Integer\<close>,
  \<open>FloatingPoint\<close>, \<open>String\<close>, \<open>Boolean\<close>) are not part of the sources at hand.
  The spec gives a closed enumeration of five tags whose equality is tag equality; the
  evaluator only ever compares them with \<open>!=\<close> and matches on them.
\<close>

datatype type = Unit | Integer | FloatingPoint | String | Boolean

text \<open>
  A runtime value is a Python object of one of five kinds: \<open>None\<close>, an unbounded \<open>int\<close>,
  a \<open>float\<close>, a \<open>str\<close> or a \<open>bool\<close>. Floats are kept abstract: \<open>'f\<close> is the type of
  float values and every float operation the evaluator uses is a field of
  \<open>float_ops\<close>, a parameter of the evaluator. Nothing is assumed about them.
\<close>

datatype 'f val = VNone | VInt int | VFloat 'f | VStr string | VBool bool

record 'f float_ops =
  fadd :: "'f \<Rightarrow> 'f \<Rightarrow> 'f"
  fsub :: "'f \<Rightarrow> 'f \<Rightarrow> 'f"
  fmul :: "'f \<Rightarrow> 'f \<Rightarrow> 'f"
  fdiv :: "'f \<Rightarrow> 'f \<Rightarrow> 'f"
  feq0 :: "'f \<Rightarrow> bool"
  flt :: "'f \<Rightarrow> 'f \<Rightarrow> bool"
  fle :: "'f \<Rightarrow> 'f \<Rightarrow> bool"
  fgt :: "'f \<Rightarrow> 'f \<Rightarrow> bool"
  fge :: "'f \<Rightarrow> 'f \<Rightarrow> bool"
  feq :: "'f \<Rightarrow> 'f \<Rightarrow> bool"
  fne :: "'f \<Rightarrow> 'f \<Rightarrow> bool"

text \<open>
  Modelled from the spec: the node classes of \<open>stimpl.expression\<close> are not part of the
  sources at hand either. The constructors are the class patterns of the \<open>match\<close> in
  \<open>evaluate\<close>, with the fields those patterns bind. \<open>Assign\<close> holds a \<open>Variable\<close>
  node of which the evaluator reads \<open>variable_name\<close> only, so the model stores that name.
  Each literal carries a value of its own kind. \<open>If\<close> and \<open>Not\<close> are HOL constants, hence
  the suffix.
\<close>

datatype 'f expr =
    Ren
  | IntLiteral int
  | FloatingPointLiteral 'f
  | StringLiteral string
  | BooleanLiteral bool
  | Print "'f expr"
  | Sequence "'f expr list"
  | Program "'f expr list"
  | Variable string
  | Assign string "'f expr"
  | Add "'f expr" "'f expr"
  | Subtract "'f expr" "'f expr"
  | Multiply "'f expr" "'f expr"
  | Divide "'f expr" "'f expr"
  | And "'f expr" "'f expr"
  | Or "'f expr" "'f expr"
  | Not_expr "'f expr"
  | If_expr "'f expr" "'f expr" "'f expr"
  | Lt "'f expr" "'f expr"
  | Lte "'f expr" "'f expr"
  | Gt "'f expr" "'f expr"
  | Gte "'f expr" "'f expr"
  | Eq "'f expr" "'f expr"
  | Ne "'f expr" "'f expr"
  | While "'f expr" "'f expr"

subsection \<open>Interpreter state\<close>

text \<open>
  \<open>class State\<close>: one frame holds \<open>variable_name\<close>, the pair \<open>(variable_value,
  variable_type)\<close> and \<open>next_state\<close>, which \<open>get_value\<close> tests against \<open>None\<close>, hence
  the option. \<open>class EmptyState\<close> has no fields.
\<close>

datatype 'f state =
    EmptyState
  | State string "'f val" type "'f state option"

fun get_value :: "'f state \<Rightarrow> string \<Rightarrow> ('f val \<times> type) option" where
  "get_value EmptyState variable_name = None"
| "get_value (State name v t next_state) variable_name =
     (if variable_name = name then Some (v, t)
      else (case next_state of
              Some nxt \<Rightarrow> get_value nxt variable_name
            | None \<Rightarrow> None))"

definition set_value :: "'f state \<Rightarrow> string \<Rightarrow> 'f val \<Rightarrow> type \<Rightarrow> 'f state" where
  "set_value self variable_name variable_value variable_type =
     State variable_name variable_value variable_type (Some self)"

subsection \<open>Outcomes, errors and emitted output\<close>

text \<open>
  The three exception classes of \<open>stimpl.errors\<close> that \<open>evaluate\<close> raises (their
  message strings are not modelled), and \<open>HostError\<close>: a Python operator applied to
  operands of kinds other than the ones its type tag announces, where Python raises an
  exception of its own or coerces between \<open>bool\<close>, \<open>int\<close> and \<open>float\<close>. No chain whose
  bindings pair each value with the type of its kind leads there.
\<close>

datatype error = InterpSyntaxError | InterpTypeError | InterpMathError | HostError

text \<open>
  One call of \<open>print\<close>: the text \<open>Unit\<close>, or the default text of a value
  (\<open>f"{printable_value}"\<close>, kept as the value itself).
\<close>

datatype 'f out = PrintUnit | PrintValue "'f val"

datatype 'f outcome = Return "'f val" type "'f state" | Raise error

text \<open>
  The result of a run: what the call returned or raised, with the lines it printed until
  then; \<open>None\<close> when the fuel ran out before the call came back.
\<close>

type_synonym 'f res = "('f outcome \<times> 'f out list) option"

definition ret :: "'f val \<Rightarrow> type \<Rightarrow> 'f state \<Rightarrow> 'f res" where
  "ret v t s = Some (Return v t s, [])"

definition raise :: "error \<Rightarrow> 'f res" where
  "raise e = Some (Raise e, [])"

text \<open>
  Sequential composition: an exception of the first call unwinds past the rest, a
  returned triple is handed on, and the printed lines are kept in order.
\<close>

fun and_then :: "'f res \<Rightarrow> ('f val \<Rightarrow> type \<Rightarrow> 'f state \<Rightarrow> 'f res) \<Rightarrow> 'f res" where
  "and_then None k = None"
| "and_then (Some (Raise e, out)) k = Some (Raise e, out)"
| "and_then (Some (Return v t s, out)) k =
     (case k v t s of
        None \<Rightarrow> None
      | Some (r, out') \<Rightarrow> Some (r, out @ out'))"

subsection \<open>Python operators on values\<close>

text \<open>Truth value of a Python object, as tested by \<open>if\<close>, \<open>while\<close>, \<open>and\<close>, \<open>or\<close>, \<open>not\<close>.\<close>

fun truthy :: "'f float_ops \<Rightarrow> 'f val \<Rightarrow> bool" where
  "truthy fo VNone = False"
| "truthy fo (VInt i) = (i \<noteq> 0)"
| "truthy fo (VFloat x) = (\<not> feq0 fo x)"
| "truthy fo (VStr str) = (str \<noteq> [])"
| "truthy fo (VBool b) = b"

text \<open>\<open>right_result == 0\<close>. A \<open>bool\<close> is an \<open>int\<close> in Python: \<open>False == 0\<close> holds.\<close>

fun eq_zero :: "'f float_ops \<Rightarrow> 'f val \<Rightarrow> bool" where
  "eq_zero fo VNone = False"
| "eq_zero fo (VInt i) = (i = 0)"
| "eq_zero fo (VFloat x) = feq0 fo x"
| "eq_zero fo (VStr str) = False"
| "eq_zero fo (VBool b) = (\<not> b)"

text \<open>
  The binary operators on two operands of one kind; \<open>None\<close> for any other pair
  (\<open>HostError\<close> in the evaluator).
\<close>

fun py_add :: "'f float_ops \<Rightarrow> 'f val \<Rightarrow> 'f val \<Rightarrow> 'f val option" where
  "py_add fo (VInt a) (VInt b) = Some (VInt (a + b))"
| "py_add fo (VStr a) (VStr b) = Some (VStr (a @ b))"
| "py_add fo (VFloat a) (VFloat b) = Some (VFloat (fadd fo a b))"
| "py_add fo _ _ = None"

fun py_sub :: "'f float_ops \<Rightarrow> 'f val \<Rightarrow> 'f val \<Rightarrow> 'f val option" where
  "py_sub fo (VInt a) (VInt b) = Some (VInt (a - b))"
| "py_sub fo (VFloat a) (VFloat b) = Some (VFloat (fsub fo a b))"
| "py_sub fo _ _ = None"

fun py_mul :: "'f float_ops \<Rightarrow> 'f val \<Rightarrow> 'f val \<Rightarrow> 'f val option" where
  "py_mul fo (VInt a) (VInt b) = Some (VInt (a * b))"
| "py_mul fo (VFloat a) (VFloat b) = Some (VFloat (fmul fo a b))"
| "py_mul fo _ _ = None"

text \<open>
  \<open>//\<close> under the tag \<open>Integer\<close> and \<open>/\<close> under the tag \<open>FloatingPoint\<close>; both are
  reached only after \<open>right_result == 0\<close> was false. \<open>div\<close> on \<open>int\<close> rounds toward
  minus infinity, as \<open>//\<close> does.
\<close>

fun py_floordiv :: "'f val \<Rightarrow> 'f val \<Rightarrow> 'f val option" where
  "py_floordiv (VInt a) (VInt b) = (if b = 0 then None else Some (VInt (a div b)))"
| "py_floordiv _ _ = None"

fun py_truediv :: "'f float_ops \<Rightarrow> 'f val \<Rightarrow> 'f val \<Rightarrow> 'f val option" where
  "py_truediv fo (VFloat a) (VFloat b) = Some (VFloat (fdiv fo a b))"
| "py_truediv fo _ _ = None"

text \<open>\<open>a and b\<close> is \<open>a\<close> when \<open>a\<close> is false, else \<open>b\<close>; \<open>a or b\<close> the other way round.\<close>

definition py_and :: "'f float_ops \<Rightarrow> 'f val \<Rightarrow> 'f val \<Rightarrow> 'f val" where
  "py_and fo a b = (if truthy fo a then b else a)"

definition py_or :: "'f float_ops \<Rightarrow> 'f val \<Rightarrow> 'f val \<Rightarrow> 'f val" where
  "py_or fo a b = (if truthy fo a then a else b)"

definition py_not :: "'f float_ops \<Rightarrow> 'f val \<Rightarrow> 'f val" where
  "py_not fo a = VBool (\<not> truthy fo a)"

text \<open>
  The six comparisons on two operands of one kind: integers by value, booleans with
  \<open>False < True\<close>, strings lexicographically by character code.
\<close>

fun py_lt :: "'f float_ops \<Rightarrow> 'f val \<Rightarrow> 'f val \<Rightarrow> bool option" where
  "py_lt fo (VInt a) (VInt b) = Some (a < b)"
| "py_lt fo (VBool a) (VBool b) = Some (a < b)"
| "py_lt fo (VStr a) (VStr b) = Some (a < b)"
| "py_lt fo (VFloat a) (VFloat b) = Some (flt fo a b)"
| "py_lt fo _ _ = None"

fun py_le :: "'f float_ops \<Rightarrow> 'f val \<Rightarrow> 'f val \<Rightarrow> bool option" where
  "py_le fo (VInt a) (VInt b) = Some (a \<le> b)"
| "py_le fo (VBool a) (VBool b) = Some (a \<le> b)"
| "py_le fo (VStr a) (VStr b) = Some (a \<le> b)"
| "py_le fo (VFloat a) (VFloat b) = Some (fle fo a b)"
| "py_le fo _ _ = None"

fun py_gt :: "'f float_ops \<Rightarrow> 'f val \<Rightarrow> 'f val \<Rightarrow> bool option" where
  "py_gt fo (VInt a) (VInt b) = Some (a > b)"
| "py_gt fo (VBool a) (VBool b) = Some (a > b)"
| "py_gt fo (VStr a) (VStr b) = Some (a > b)"
| "py_gt fo (VFloat a) (VFloat b) = Some (fgt fo a b)"
| "py_gt fo _ _ = None"

fun py_ge :: "'f float_ops \<Rightarrow> 'f val \<Rightarrow> 'f val \<Rightarrow> bool option" where
  "py_ge fo (VInt a) (VInt b) = Some (a \<ge> b)"
| "py_ge fo (VBool a) (VBool b) = Some (a \<ge> b)"
| "py_ge fo (VStr a) (VStr b) = Some (a \<ge> b)"
| "py_ge fo (VFloat a) (VFloat b) = Some (fge fo a b)"
| "py_ge fo _ _ = None"

fun py_eq :: "'f float_ops \<Rightarrow> 'f val \<Rightarrow> 'f val \<Rightarrow> bool option" where
  "py_eq fo (VInt a) (VInt b) = Some (a = b)"
| "py_eq fo (VBool a) (VBool b) = Some (a = b)"
| "py_eq fo (VStr a) (VStr b) = Some (a = b)"
| "py_eq fo (VFloat a) (VFloat b) = Some (feq fo a b)"
| "py_eq fo _ _ = None"

fun py_ne :: "'f float_ops \<Rightarrow> 'f val \<Rightarrow> 'f val \<Rightarrow> bool option" where
  "py_ne fo (VInt a) (VInt b) = Some (a \<noteq> b)"
| "py_ne fo (VBool a) (VBool b) = Some (a \<noteq> b)"
| "py_ne fo (VStr a) (VStr b) = Some (a \<noteq> b)"
| "py_ne fo (VFloat a) (VFloat b) = Some (fne fo a b)"
| "py_ne fo _ _ = None"

subsection \<open>The evaluator\<close>

text \<open>The value a Python operator gave, under the type tag \<open>t\<close>.\<close>

fun host :: "'f val option \<Rightarrow> type \<Rightarrow> 'f state \<Rightarrow> 'f res" where
  "host (Some r) t s = ret r t s"
| "host None t s = raise HostError"

text \<open>
  The tail shared by the six comparison cases of \<open>evaluate\<close>, after both operands were
  evaluated: the mismatch check, then the \<open>match left_type\<close> with its branch for the
  four comparable types and its branch for \<open>Unit\<close>, whose fixed result is \<open>unit_result\<close>.
  The \<open>case _\<close> branch of the source cannot be reached: the five tags are all there are.
\<close>

definition compare :: "bool option \<Rightarrow> bool \<Rightarrow> type \<Rightarrow> type \<Rightarrow> 'f state \<Rightarrow> 'f res" where
  "compare result unit_result left_type right_type new_state =
     (if left_type \<noteq> right_type then raise InterpTypeError
      else (case left_type of
              Unit \<Rightarrow> ret (VBool unit_result) Boolean new_state
            | _ \<Rightarrow> host (map_option VBool result) Boolean new_state))"

text \<open>
  \<open>evaluate\<close>, with the \<open>for\<close> loop of the \<open>Sequence | Program\<close> case (\<open>for_exprs\<close>) and
  the \<open>while\<close> loop of the \<open>While\<close> case (\<open>while_loop\<close>, entered with the current
  \<open>result\<close> and \<open>cond_type\<close>). The first argument after the float operations is fuel: each
  call of \<open>evaluate\<close> and each turn of the \<open>while\<close> loop uses one unit.
\<close>

fun evaluate :: "'f float_ops \<Rightarrow> nat \<Rightarrow> 'f expr \<Rightarrow> 'f state \<Rightarrow> 'f res"
and for_exprs :: "'f float_ops \<Rightarrow> nat \<Rightarrow> 'f expr list \<Rightarrow> 'f val \<Rightarrow> type \<Rightarrow> 'f state \<Rightarrow> 'f res"
and while_loop ::
  "'f float_ops \<Rightarrow> nat \<Rightarrow> 'f expr \<Rightarrow> 'f expr \<Rightarrow> 'f val \<Rightarrow> type \<Rightarrow> 'f state \<Rightarrow> 'f res"
where
  "evaluate fo 0 expression state = None"
| "evaluate fo (Suc n) Ren state = ret VNone Unit state"
| "evaluate fo (Suc n) (IntLiteral l) state = ret (VInt l) Integer state"
| "evaluate fo (Suc n) (FloatingPointLiteral l) state = ret (VFloat l) FloatingPoint state"
| "evaluate fo (Suc n) (StringLiteral l) state = ret (VStr l) String state"
| "evaluate fo (Suc n) (BooleanLiteral l) state = ret (VBool l) Boolean state"
| "evaluate fo (Suc n) (Print to_print) state =
     and_then (evaluate fo n to_print state)
       (\<lambda>printable_value printable_type new_state.
          Some (Return printable_value printable_type new_state,
                [case printable_type of
                   Unit \<Rightarrow> PrintUnit
                 | _ \<Rightarrow> PrintValue printable_value]))"
| "evaluate fo (Suc n) (Sequence exprs) state =
     and_then (evaluate fo n Ren state) (for_exprs fo n exprs)"
| "evaluate fo (Suc n) (Program exprs) state =
     and_then (evaluate fo n Ren state) (for_exprs fo n exprs)"
| "evaluate fo (Suc n) (Variable variable_name) state =
     (case get_value state variable_name of
        None \<Rightarrow> raise InterpSyntaxError
      | Some (variable_value, variable_type) \<Rightarrow> ret variable_value variable_type state)"
| "evaluate fo (Suc n) (Assign variable_name val) state =
     and_then (evaluate fo n val state)
       (\<lambda>value_result value_type new_state.
          let variable_type =
                (case get_value new_state variable_name of
                   Some (_, variable_type) \<Rightarrow> Some variable_type
                 | None \<Rightarrow> None)
          in if Some value_type \<noteq> variable_type \<and> variable_type \<noteq> None
             then raise InterpTypeError
             else ret value_result value_type
                    (set_value new_state variable_name value_result value_type))"
| "evaluate fo (Suc n) (Add left right) state =
     and_then (evaluate fo n left state) (\<lambda>left_result left_type new_state.
     and_then (evaluate fo n right new_state) (\<lambda>right_result right_type new_state.
       if left_type \<noteq> right_type then raise InterpTypeError
       else if left_type = Integer \<or> left_type = String \<or> left_type = FloatingPoint
       then host (py_add fo left_result right_result) left_type new_state
       else raise InterpTypeError))"
| "evaluate fo (Suc n) (Subtract left right) state =
     and_then (evaluate fo n left state) (\<lambda>left_result left_type new_state.
     and_then (evaluate fo n right new_state) (\<lambda>right_result right_type new_state.
       if left_type \<noteq> right_type then raise InterpTypeError
       else if left_type = Integer \<or> left_type = FloatingPoint
       then host (py_sub fo left_result right_result) left_type new_state
       else raise InterpTypeError))"
| "evaluate fo (Suc n) (Multiply left right) state =
     and_then (evaluate fo n left state) (\<lambda>left_result left_type new_state.
     and_then (evaluate fo n right new_state) (\<lambda>right_result right_type new_state.
       if left_type \<noteq> right_type then raise InterpTypeError
       else if left_type = Integer \<or> left_type = FloatingPoint
       then host (py_mul fo left_result right_result) left_type new_state
       else raise InterpTypeError))"
| "evaluate fo (Suc n) (Divide left right) state =
     and_then (evaluate fo n left state) (\<lambda>left_result left_type new_state.
     and_then (evaluate fo n right new_state) (\<lambda>right_result right_type new_state.
       if left_type \<noteq> right_type then raise InterpTypeError
       else if eq_zero fo right_result then raise InterpMathError
       else (case left_type of
               Integer \<Rightarrow> host (py_floordiv left_result right_result) left_type new_state
             | FloatingPoint \<Rightarrow>
                 host (py_truediv fo left_result right_result) left_type new_state
             | _ \<Rightarrow> raise InterpTypeError)))"
| "evaluate fo (Suc n) (And left right) state =
     and_then (evaluate fo n left state) (\<lambda>left_value left_type new_state.
     and_then (evaluate fo n right new_state) (\<lambda>right_value right_type new_state.
       if left_type \<noteq> right_type then raise InterpTypeError
       else (case left_type of
               Boolean \<Rightarrow> ret (py_and fo left_value right_value) left_type new_state
             | _ \<Rightarrow> raise InterpTypeError)))"
| "evaluate fo (Suc n) (Or left right) state =
     and_then (evaluate fo n left state) (\<lambda>left_value left_type new_state.
     and_then (evaluate fo n right new_state) (\<lambda>right_value right_type new_state.
       if left_type \<noteq> right_type then raise InterpTypeError
       else (case left_type of
               Boolean \<Rightarrow> ret (py_or fo left_value right_value) left_type new_state
             | _ \<Rightarrow> raise InterpTypeError)))"
| "evaluate fo (Suc n) (Not_expr expr) state =
     and_then (evaluate fo n expr state) (\<lambda>expr_value expr_type new_state.
       case expr_type of
         Boolean \<Rightarrow> ret (py_not fo expr_value) expr_type new_state
       | _ \<Rightarrow> raise InterpTypeError)"
| "evaluate fo (Suc n) (If_expr condition true false) state =
     and_then (evaluate fo n condition state) (\<lambda>cond_result cond_type new_state.
       case cond_type of
         Boolean \<Rightarrow>
           (if truthy fo cond_result then evaluate fo n true new_state
            else evaluate fo n false new_state)
       | _ \<Rightarrow> raise InterpTypeError)"
| "evaluate fo (Suc n) (Lt left right) state =
     and_then (evaluate fo n left state) (\<lambda>left_value left_type new_state.
     and_then (evaluate fo n right new_state) (\<lambda>right_value right_type new_state.
       compare (py_lt fo left_value right_value) False left_type right_type new_state))"
| "evaluate fo (Suc n) (Lte left right) state =
     and_then (evaluate fo n left state) (\<lambda>left_value left_type new_state.
     and_then (evaluate fo n right new_state) (\<lambda>right_value right_type new_state.
       compare (py_le fo left_value right_value) True left_type right_type new_state))"
| "evaluate fo (Suc n) (Gt left right) state =
     and_then (evaluate fo n left state) (\<lambda>left_value left_type new_state.
     and_then (evaluate fo n right new_state) (\<lambda>right_value right_type new_state.
       compare (py_gt fo left_value right_value) False left_type right_type new_state))"
| "evaluate fo (Suc n) (Gte left right) state =
     and_then (evaluate fo n left state) (\<lambda>left_value left_type new_state.
     and_then (evaluate fo n right new_state) (\<lambda>right_value right_type new_state.
       compare (py_ge fo left_value right_value) True left_type right_type new_state))"
| "evaluate fo (Suc n) (Eq left right) state =
     and_then (evaluate fo n left state) (\<lambda>left_value left_type new_state.
     and_then (evaluate fo n right new_state) (\<lambda>right_value right_type new_state.
       compare (py_eq fo left_value right_value) True left_type right_type new_state))"
| "evaluate fo (Suc n) (Ne left right) state =
     and_then (evaluate fo n left state) (\<lambda>left_value left_type new_state.
     and_then (evaluate fo n right new_state) (\<lambda>right_value right_type new_state.
       compare (py_ne fo left_value right_value) False left_type right_type new_state))"
| "evaluate fo (Suc n) (While condition body) state =
     and_then (evaluate fo n condition state) (\<lambda>cond_result cond_type new_state.
       case cond_type of
         Boolean \<Rightarrow> while_loop fo n condition body cond_result cond_type new_state
       | _ \<Rightarrow> raise InterpTypeError)"
| "for_exprs fo n [] expr_value expr_type new_state = ret expr_value expr_type new_state"
| "for_exprs fo n (expr # exprs) expr_value expr_type new_state =
     and_then (evaluate fo n expr new_state) (for_exprs fo n exprs)"
| "while_loop fo 0 condition body result cond_type new_state = None"
| "while_loop fo (Suc n) condition body result cond_type new_state =
     (if truthy fo result
      then and_then (evaluate fo n body new_state) (\<lambda>body_result body_type new_state.
           and_then (evaluate fo n condition new_state) (\<lambda>cond_result cond_type new_state.
             case cond_type of
               Boolean \<Rightarrow> while_loop fo n condition body cond_result cond_type new_state
             | _ \<Rightarrow> raise InterpTypeError))
      else ret result cond_type new_state)"

text \<open>
  \<open>evaluate\<close> as a relation between a call and its result, free of the fuel: the call
  comes back with \<open>r\<close>.
\<close>

definition evaluates :: "'f float_ops \<Rightarrow> 'f expr \<Rightarrow> 'f state \<Rightarrow> 'f outcome \<times> 'f out list \<Rightarrow> bool" where
  "evaluates fo expression state r = (\<exists>n. evaluate fo n expression state = Some r)"

text \<open>\<open>run_stimpl\<close> (without the debug printing): a program runs from \<open>EmptyState()\<close>.\<close>

definition run_stimpl :: "'f float_ops \<Rightarrow> nat \<Rightarrow> 'f expr \<Rightarrow> 'f res" where
  "run_stimpl fo n program = evaluate fo n program EmptyState"

subsection \<open>Auxiliary notions for the proofs\<close>

text \<open>More fuel never changes a result: \<open>le_res x y\<close> when \<open>x\<close> ran out of fuel or equals \<open>y\<close>.\<close>

definition le_res :: "'a option \<Rightarrow> 'a option \<Rightarrow> bool" where
  "le_res x y = (x = None \<or> x = y)"

text \<open>
  One instance of the float operations, reading them as exact arithmetic on the reals. It
  serves to run closed examples, none of which holds a float.
\<close>

definition exact_ops :: "real float_ops" where
  "exact_ops =
     \<lparr>fadd = (+), fsub = (-), fmul = (*), fdiv = (/), feq0 = (\<lambda>x. x = 0),
      flt = (<), fle = (\<le>), fgt = (>), fge = (\<ge>), feq = (=), fne = (\<noteq>)\<rparr>"

text \<open>
  A value is paired with the type of its kind; a chain is well paired when each of its
  frames is. \<open>sound_res\<close>: a result that is well paired and is not \<open>HostError\<close>.
\<close>

fun well_paired :: "'f val \<Rightarrow> type \<Rightarrow> bool" where
  "well_paired VNone Unit = True"
| "well_paired (VInt i) Integer = True"
| "well_paired (VFloat x) FloatingPoint = True"
| "well_paired (VStr str) String = True"
| "well_paired (VBool b) Boolean = True"
| "well_paired _ _ = False"

fun paired_state :: "'f state \<Rightarrow> bool" where
  "paired_state EmptyState = True"
| "paired_state (State name v t next_state) =
     (well_paired v t \<and> (case next_state of Some nxt \<Rightarrow> paired_state nxt | None \<Rightarrow> True))"

definition sound_res :: "'f res \<Rightarrow> bool" where
  "sound_res x =
     (case x of
        None \<Rightarrow> True
      | Some (Return v t s, out) \<Rightarrow> well_paired v t \<and> paired_state s
      | Some (Raise e, out) \<Rightarrow> e \<noteq> HostError)"

section \<open>Properties\<close>

subsection \<open>Fuel\<close>

lemma le_res_refl: "le_res x x"
  by (simp add: le_res_def)

lemma le_res_None: "le_res None y"
  by (simp add: le_res_def)

lemma and_then_le:
  assumes "le_res x x'" and "\<And>v t s. le_res (k v t s) (k' v t s)"
  shows "le_res (and_then x k) (and_then x' k')"
proof (cases x)
  case None
  then show ?thesis by (simp add: le_res_def)
next
  case (Some a)
  with assms(1) have eq: "x' = x" by (simp add: le_res_def)
  obtain r out where a: "a = (r, out)" by (cases a)
  show ?thesis
  proof (cases r)
    case (Raise e)
    then show ?thesis using Some a eq by (simp add: le_res_def)
  next
    case (Return v t s)
    from assms(2)[of v t s] show ?thesis using Some a eq Return by (auto simp: le_res_def)
  qed
qed

lemma for_exprs_le:
  assumes E: "\<And>e s. le_res (evaluate fo m e s) (evaluate fo m' e s)"
  shows "le_res (for_exprs fo m es v t s) (for_exprs fo m' es v t s)"
proof (induction es arbitrary: v t s)
  case Nil
  show ?case by (simp add: le_res_refl)
next
  case (Cons e es)
  show ?case by (auto intro!: and_then_le E Cons.IH)
qed

lemma while_loop_step_le:
  assumes E: "\<And>e s. le_res (evaluate fo m e s) (evaluate fo m' e s)"
    and W: "\<And>v t s. le_res (while_loop fo m c b v t s) (while_loop fo m' c b v t s)"
  shows "le_res (while_loop fo (Suc m) c b v t s) (while_loop fo (Suc m') c b v t s)"
  by (auto intro!: and_then_le le_res_refl E W split: type.splits)

lemma evaluate_step_le:
  assumes E: "\<And>e s. le_res (evaluate fo m e s) (evaluate fo m' e s)"
    and W: "\<And>c b v t s. le_res (while_loop fo m c b v t s) (while_loop fo m' c b v t s)"
  shows "le_res (evaluate fo (Suc m) e s) (evaluate fo (Suc m') e s)"
  by (cases e) (auto intro!: and_then_le le_res_refl E W for_exprs_le split: type.splits)

lemma fuel_step:
  "(\<forall>e s. le_res (evaluate fo n e s) (evaluate fo (Suc n) e s)) \<and>
   (\<forall>c b v t s. le_res (while_loop fo n c b v t s) (while_loop fo (Suc n) c b v t s))"
proof (induction n)
  case 0
  show ?case by (simp add: le_res_None)
next
  case (Suc n)
  then have E: "\<And>e s. le_res (evaluate fo n e s) (evaluate fo (Suc n) e s)"
    and W: "\<And>c b v t s. le_res (while_loop fo n c b v t s) (while_loop fo (Suc n) c b v t s)"
    by blast+
  show ?case
    using evaluate_step_le[of fo n "Suc n", OF E W] while_loop_step_le[of fo n "Suc n", OF E W]
    by blast
qed

lemma evaluate_mono:
  "n \<le> m \<Longrightarrow> evaluate fo n e s = Some r \<Longrightarrow> evaluate fo m e s = Some r"
proof (induction m)
  case 0
  then show ?case by simp
next
  case (Suc m)
  show ?case
  proof (cases "n = Suc m")
    case True
    with Suc.prems show ?thesis by simp
  next
    case False
    with Suc have "evaluate fo m e s = Some r" by simp
    moreover from fuel_step[of fo m]
    have "le_res (evaluate fo m e s) (evaluate fo (Suc m) e s)" by blast
    ultimately show ?thesis by (simp add: le_res_def)
  qed
qed

lemma evaluatesI: "evaluate fo n e s = Some r \<Longrightarrow> evaluates fo e s r"
  by (auto simp: evaluates_def)

lemma evaluates_det:
  assumes "evaluates fo e s r" and "evaluates fo e s r'"
  shows "r = r'"
proof -
  from assms obtain n m
    where n: "evaluate fo n e s = Some r" and m: "evaluate fo m e s = Some r'"
    by (auto simp: evaluates_def)
  from evaluate_mono[OF max.cobounded1 n, of m] evaluate_mono[OF max.cobounded2 m, of n]
  show ?thesis by simp
qed

text \<open>Two calls that come back do so with one common amount of fuel.\<close>

lemma evaluates_common_fuel:
  assumes "evaluates fo e1 s1 r1" and "evaluates fo e2 s2 r2"
  obtains n where "evaluate fo n e1 s1 = Some r1" and "evaluate fo n e2 s2 = Some r2"
proof -
  from assms obtain a b
    where a: "evaluate fo a e1 s1 = Some r1" and b: "evaluate fo b e2 s2 = Some r2"
    by (auto simp: evaluates_def)
  from evaluate_mono[OF max.cobounded1 a, of b] evaluate_mono[OF max.cobounded2 b, of a]
  show ?thesis by (rule that)
qed

lemma evaluates_iff:
  assumes "evaluates fo e s r0"
  shows "evaluates fo e s r \<longleftrightarrow> r = r0"
  using assms evaluates_det by blast

lemma and_then_Some:
  assumes "and_then x k = Some res"
  shows "(\<exists>e out. x = Some (Raise e, out) \<and> res = (Raise e, out)) \<or>
         (\<exists>v t s out r out'. x = Some (Return v t s, out) \<and> k v t s = Some (r, out')
            \<and> res = (r, out @ out'))"
proof (cases x)
  case None
  with assms show ?thesis by simp
next
  case (Some a)
  obtain r out where a: "a = (r, out)" by (cases a)
  show ?thesis
  proof (cases r)
    case (Raise e)
    with assms Some a show ?thesis by auto
  next
    case (Return v t s)
    with assms Some a show ?thesis by (auto split: option.splits)
  qed
qed

subsection \<open>The environment chain\<close>

text \<open>
  C2. Looking up the name just bound gives the new pair (the most recent binding wins),
  and looking up any other name gives what the chain gave before the extension.
\<close>

theorem get_value_set_value:
  "get_value (set_value c n v t) n = Some (v, t) \<and>
   (n2 \<noteq> n \<longrightarrow> get_value (set_value c n v t) n2 = get_value c n2)"
  by (simp add: set_value_def)

theorem get_value_set_value_witness:
  "get_value (set_value (State ''y'' (VInt 1) Integer (Some EmptyState)) ''y''
       (VInt 2 :: real val) Integer) ''y'' = Some (VInt 2, Integer) \<and>
   ''x'' \<noteq> ''y'' \<and>
   get_value (set_value (State ''x'' (VBool True) Boolean (Some EmptyState)) ''y''
       (VInt 2 :: real val) Integer) ''x'' = Some (VBool True, Boolean)"
  using get_value_set_value[of "State ''y'' (VInt 1) Integer (Some EmptyState)" "''y''"
      "VInt 2 :: real val" Integer "''x''"]
    get_value_set_value[of "State ''x'' (VBool True) Boolean (Some EmptyState)" "''y''"
      "VInt 2 :: real val" Integer "''x''"]
  by simp

subsection \<open>Variable references\<close>

text \<open>
  C9. A reference to a name without a binding raises \<open>InterpSyntaxError\<close>; a reference
  to a bound name returns the bound value and type together with the chain it was given,
  and that is the only result. Nothing is printed.
\<close>

theorem variable_reference:
  "evaluates fo (Variable x) s r \<longleftrightarrow>
     r = (case get_value s x of
            None \<Rightarrow> Raise InterpSyntaxError
          | Some (v, t) \<Rightarrow> Return v t s, [])"
proof (rule evaluates_iff)
  show "evaluates fo (Variable x) s
          (case get_value s x of
             None \<Rightarrow> Raise InterpSyntaxError
           | Some (v, t) \<Rightarrow> Return v t s, [])"
    by (rule evaluatesI[of _ "Suc 0"]) (simp add: ret_def raise_def split: option.splits)
qed

subsection \<open>Assignment\<close>

text \<open>
  C3. When the value expression of an \<open>Assign\<close> node comes back with \<open>(v, t, s')\<close>, the
  node has exactly one result: \<open>InterpTypeError\<close> if the target name is bound in \<open>s'\<close>
  with a type other than \<open>t\<close>; otherwise (the name is absent, or bound with type \<open>t\<close>)
  the triple \<open>(v, t, set_value s' x v t)\<close>. The value expression is evaluated first: what
  it printed is all that was printed, and the lookup is made in the chain it left.
\<close>

theorem assign_contract:
  assumes "evaluates fo val s (Return v t s', out)"
  shows "evaluates fo (Assign x val) s r \<longleftrightarrow>
           r = (if \<exists>v0 t0. get_value s' x = Some (v0, t0) \<and> t0 \<noteq> t
                then Raise InterpTypeError
                else Return v t (set_value s' x v t), out)"
proof (rule evaluates_iff)
  from assms obtain n where "evaluate fo n val s = Some (Return v t s', out)"
    by (auto simp: evaluates_def)
  then have "evaluate fo (Suc n) (Assign x val) s =
      Some (if \<exists>v0 t0. get_value s' x = Some (v0, t0) \<and> t0 \<noteq> t
            then Raise InterpTypeError
            else Return v t (set_value s' x v t), out)"
    by (auto simp: ret_def raise_def split: option.splits)
  then show "evaluates fo (Assign x val) s
      (if \<exists>v0 t0. get_value s' x = Some (v0, t0) \<and> t0 \<noteq> t
       then Raise InterpTypeError
       else Return v t (set_value s' x v t), out)"
    by (rule evaluatesI)
qed

theorem assign_contract_witness:
  "evaluates exact_ops (IntLiteral 1) (State ''x'' (VBool True) Boolean (Some EmptyState))
     (Return (VInt 1) Integer (State ''x'' (VBool True) Boolean (Some EmptyState)), []) \<and>
   evaluates exact_ops (Assign ''x'' (IntLiteral 1))
     (State ''x'' (VBool True) Boolean (Some EmptyState)) (Raise InterpTypeError, []) \<and>
   evaluates exact_ops (Assign ''y'' (IntLiteral 1))
     (State ''x'' (VBool True) Boolean (Some EmptyState))
     (Return (VInt 1) Integer
        (State ''y'' (VInt 1) Integer (Some (State ''x'' (VBool True) Boolean (Some EmptyState)))),
      [])"
proof -
  have h: "evaluates exact_ops (IntLiteral 1) (State ''x'' (VBool True) Boolean (Some EmptyState))
     (Return (VInt 1) Integer (State ''x'' (VBool True) Boolean (Some EmptyState)), [])"
    by (rule evaluatesI[of _ "Suc 0"]) (simp add: ret_def)
  show ?thesis
    using h assign_contract[OF h, of "''x''"] assign_contract[OF h, of "''y''"]
    by (simp add: set_value_def)
qed

subsection \<open>Division\<close>

text \<open>
  C1 fails on the code. Two \<open>Boolean\<close> operands pass the mismatch check, and the next
  check, \<open>right_result == 0\<close>, holds for the value \<open>False\<close>: the call raises
  \<open>InterpMathError\<close> before the \<open>match left_type\<close> that would raise \<open>InterpTypeError\<close>.
\<close>

theorem divide_boolean_by_false:
  "evaluate fo (Suc (Suc n)) (Divide (BooleanLiteral b) (BooleanLiteral False)) s =
     Some (Raise InterpMathError, [])"
  by (simp add: ret_def raise_def)

text \<open>
  C5. When both operands of \<open>Divide\<close> come back as integers of type \<open>Integer\<close>, the node
  raises \<open>InterpMathError\<close> for the divisor zero and otherwise returns the quotient
  rounded toward minus infinity, with type \<open>Integer\<close> and the chain left by the right
  operand. So \<open>Divide(IntLiteral(7), IntLiteral(2))\<close> gives \<open>3\<close> and leaves the chain as
  it was, and \<open>Divide(IntLiteral(1), IntLiteral(0))\<close> raises \<open>InterpMathError\<close>.
\<close>

theorem divide_integer:
  assumes "evaluates fo left s (Return (VInt a) Integer s1, o1)"
    and "evaluates fo right s1 (Return (VInt b) Integer s2, o2)"
  shows "evaluates fo (Divide left right) s
           (if b = 0 then Raise InterpMathError
            else Return (VInt \<lfloor>real_of_int a / real_of_int b\<rfloor>) Integer s2, o1 @ o2) \<and>
         evaluates fo (Divide (IntLiteral 7) (IntLiteral 2)) s0 (Return (VInt 3) Integer s0, []) \<and>
         evaluates fo (Divide (IntLiteral 1) (IntLiteral 0)) s0 (Raise InterpMathError, [])"
proof (intro conjI)
  from assms obtain n
    where "evaluate fo n left s = Some (Return (VInt a) Integer s1, o1)"
      and "evaluate fo n right s1 = Some (Return (VInt b) Integer s2, o2)"
    by (rule evaluates_common_fuel)
  then have "evaluate fo (Suc n) (Divide left right) s =
      Some (if b = 0 then Raise InterpMathError
            else Return (VInt \<lfloor>real_of_int a / real_of_int b\<rfloor>) Integer s2, o1 @ o2)"
    by (simp add: ret_def raise_def floor_divide_of_int_eq)
  then show "evaluates fo (Divide left right) s
           (if b = 0 then Raise InterpMathError
            else Return (VInt \<lfloor>real_of_int a / real_of_int b\<rfloor>) Integer s2, o1 @ o2)"
    by (rule evaluatesI)
next
  show "evaluates fo (Divide (IntLiteral 7) (IntLiteral 2)) s0 (Return (VInt 3) Integer s0, [])"
    by (rule evaluatesI[of _ "Suc (Suc 0)"]) (simp add: ret_def raise_def)
next
  show "evaluates fo (Divide (IntLiteral 1) (IntLiteral 0)) s0 (Raise InterpMathError, [])"
    by (rule evaluatesI[of _ "Suc (Suc 0)"]) (simp add: ret_def raise_def)
qed

theorem divide_integer_witness:
  "evaluates exact_ops (IntLiteral (- 7)) EmptyState (Return (VInt (- 7)) Integer EmptyState, []) \<and>
   evaluates exact_ops (IntLiteral 2) EmptyState (Return (VInt 2) Integer EmptyState, []) \<and>
   evaluates exact_ops (Divide (IntLiteral (- 7)) (IntLiteral 2)) EmptyState
     (Return (VInt (- 4)) Integer EmptyState, [])"
proof -
  have l: "evaluates exact_ops (IntLiteral (- 7)) EmptyState
             (Return (VInt (- 7)) Integer EmptyState, [])"
    by (rule evaluatesI[of _ "Suc 0"]) (simp add: ret_def)
  have r: "evaluates exact_ops (IntLiteral 2) EmptyState (Return (VInt 2) Integer EmptyState, [])"
    by (rule evaluatesI[of _ "Suc 0"]) (simp add: ret_def)
  have "\<lfloor>real_of_int (- 7) / real_of_int 2\<rfloor> = - 4"
    by (simp add: floor_divide_of_int_eq[of "- 7" 2, simplified])
  with divide_integer[OF l r] l r show ?thesis by simp
qed

subsection \<open>Comparisons of Unit operands\<close>

text \<open>
  C6. When both operands of a comparison come back with type \<open>Unit\<close>, whatever their
  values, the comparison returns a \<open>Boolean\<close>: \<open>False\<close> for \<open><\<close>, \<open>True\<close> for \<open><=\<close>,
  \<open>False\<close> for \<open>>\<close>, \<open>True\<close> for \<open>>=\<close>, \<open>True\<close> for \<open>==\<close> and \<open>False\<close> for \<open>!=\<close>.
\<close>

theorem unit_relational:
  assumes "evaluates fo left s (Return lv Unit s1, o1)"
    and "evaluates fo right s1 (Return rv Unit s2, o2)"
  shows "evaluates fo (Lt left right) s (Return (VBool False) Boolean s2, o1 @ o2) \<and>
         evaluates fo (Lte left right) s (Return (VBool True) Boolean s2, o1 @ o2) \<and>
         evaluates fo (Gt left right) s (Return (VBool False) Boolean s2, o1 @ o2) \<and>
         evaluates fo (Gte left right) s (Return (VBool True) Boolean s2, o1 @ o2) \<and>
         evaluates fo (Eq left right) s (Return (VBool True) Boolean s2, o1 @ o2) \<and>
         evaluates fo (Ne left right) s (Return (VBool False) Boolean s2, o1 @ o2)"
proof -
  from assms obtain n
    where l: "evaluate fo n left s = Some (Return lv Unit s1, o1)"
      and r: "evaluate fo n right s1 = Some (Return rv Unit s2, o2)"
    by (rule evaluates_common_fuel)
  have "evaluate fo (Suc n) (Lt left right) s = Some (Return (VBool False) Boolean s2, o1 @ o2)"
    using l r by (simp add: compare_def ret_def)
  moreover
  have "evaluate fo (Suc n) (Lte left right) s = Some (Return (VBool True) Boolean s2, o1 @ o2)"
    using l r by (simp add: compare_def ret_def)
  moreover
  have "evaluate fo (Suc n) (Gt left right) s = Some (Return (VBool False) Boolean s2, o1 @ o2)"
    using l r by (simp add: compare_def ret_def)
  moreover
  have "evaluate fo (Suc n) (Gte left right) s = Some (Return (VBool True) Boolean s2, o1 @ o2)"
    using l r by (simp add: compare_def ret_def)
  moreover
  have "evaluate fo (Suc n) (Eq left right) s = Some (Return (VBool True) Boolean s2, o1 @ o2)"
    using l r by (simp add: compare_def ret_def)
  moreover
  have "evaluate fo (Suc n) (Ne left right) s = Some (Return (VBool False) Boolean s2, o1 @ o2)"
    using l r by (simp add: compare_def ret_def)
  ultimately show ?thesis by (blast intro: evaluatesI)
qed

theorem unit_relational_witness:
  "evaluates exact_ops Ren EmptyState (Return VNone Unit EmptyState, []) \<and>
   evaluates exact_ops (Lt Ren Ren) EmptyState (Return (VBool False) Boolean EmptyState, []) \<and>
   evaluates exact_ops (Lte Ren Ren) EmptyState (Return (VBool True) Boolean EmptyState, []) \<and>
   evaluates exact_ops (Gt Ren Ren) EmptyState (Return (VBool False) Boolean EmptyState, []) \<and>
   evaluates exact_ops (Gte Ren Ren) EmptyState (Return (VBool True) Boolean EmptyState, []) \<and>
   evaluates exact_ops (Eq Ren Ren) EmptyState (Return (VBool True) Boolean EmptyState, []) \<and>
   evaluates exact_ops (Ne Ren Ren) EmptyState (Return (VBool False) Boolean EmptyState, [])"
proof -
  have h: "evaluates exact_ops Ren EmptyState (Return VNone Unit EmptyState, [])"
    by (rule evaluatesI[of _ "Suc 0"]) (simp add: ret_def)
  from unit_relational[OF h h] h show ?thesis by simp
qed

text \<open>
  The rest of C1 does hold: \<open>Divide\<close> raises \<open>InterpTypeError\<close> on two \<open>Unit\<close> operands
  (both \<open>None\<close>), and on two \<open>Boolean\<close> operands whose right one is \<open>True\<close>.
\<close>

lemma divide_unit_or_true:
  assumes "evaluates fo left s (Return lv t s1, o1)"
    and "evaluates fo right s1 (Return rv t s2, o2)"
    and "t = Unit \<and> rv = VNone \<or> t = Boolean \<and> rv = VBool True"
  shows "evaluates fo (Divide left right) s (Raise InterpTypeError, o1 @ o2)"
proof -
  from assms(1,2) obtain n
    where "evaluate fo n left s = Some (Return lv t s1, o1)"
      and "evaluate fo n right s1 = Some (Return rv t s2, o2)"
    by (rule evaluates_common_fuel)
  with assms(3)
  have "evaluate fo (Suc n) (Divide left right) s = Some (Raise InterpTypeError, o1 @ o2)"
    by (auto simp: raise_def)
  then show ?thesis by (rule evaluatesI)
qed

subsection \<open>Conditionals\<close>

text \<open>
  C7. When the condition of a conditional comes back with a boolean \<open>b\<close> of type
  \<open>Boolean\<close>, the results of the node are exactly the results of the chosen branch, run
  in the chain the condition left, with the lines of the condition printed before the
  lines of that branch. The other branch does not occur in this description: it changes
  no binding and prints nothing, whatever it is. In particular the program
  \<open>If(BooleanLiteral(false), Assign(x,1), Assign(x,2))\<close> followed by a reference to \<open>x\<close>
  returns \<open>2\<close>, in a chain whose only frame binds \<open>x\<close> to \<open>2\<close>.
\<close>

theorem conditional_short_circuit:
  assumes "evaluates fo condition s (Return (VBool b) Boolean s1, o1)"
  shows "(evaluates fo (If_expr condition true false) s r \<longleftrightarrow>
            (\<exists>r' o2. evaluates fo (if b then true else false) s1 (r', o2) \<and> r = (r', o1 @ o2))) \<and>
         evaluates fo
           (Program [If_expr (BooleanLiteral False) (Assign x (IntLiteral 1)) (Assign x (IntLiteral 2)),
                     Variable x])
           EmptyState
           (Return (VInt 2) Integer (State x (VInt 2) Integer (Some EmptyState)), [])"
proof (intro conjI iffI)
  assume "evaluates fo (If_expr condition true false) s r"
  then obtain n where n: "evaluate fo n (If_expr condition true false) s = Some r"
    by (auto simp: evaluates_def)
  then obtain m where m: "n = Suc m" by (cases n) auto
  let ?k = "\<lambda>cond_result cond_type new_state.
       case cond_type of
         Boolean \<Rightarrow>
           (if truthy fo cond_result then evaluate fo m true new_state
            else evaluate fo m false new_state)
       | _ \<Rightarrow> raise InterpTypeError"
  from n m have "and_then (evaluate fo m condition s) ?k = Some r" by simp
  from and_then_Some[OF this] obtain x where x: "evaluate fo m condition s = Some x"
    by auto
  with assms have "x = (Return (VBool b) Boolean s1, o1)"
    using evaluates_det evaluatesI by blast
  with x n m obtain r' o2
    where "evaluate fo m (if b then true else false) s1 = Some (r', o2)" and "r = (r', o1 @ o2)"
    by (auto split: option.splits if_splits)
  then show "\<exists>r' o2. evaluates fo (if b then true else false) s1 (r', o2) \<and> r = (r', o1 @ o2)"
    using evaluatesI by blast
next
  assume "\<exists>r' o2. evaluates fo (if b then true else false) s1 (r', o2) \<and> r = (r', o1 @ o2)"
  then obtain r' o2
    where br: "evaluates fo (if b then true else false) s1 (r', o2)" and r: "r = (r', o1 @ o2)"
    by blast
  from assms br obtain n
    where "evaluate fo n condition s = Some (Return (VBool b) Boolean s1, o1)"
      and "evaluate fo n (if b then true else false) s1 = Some (r', o2)"
    by (rule evaluates_common_fuel)
  then have "evaluate fo (Suc n) (If_expr condition true false) s = Some (r', o1 @ o2)"
    by (auto split: if_splits)
  then have "evaluates fo (If_expr condition true false) s (r', o1 @ o2)"
    by (rule evaluatesI)
  with r show "evaluates fo (If_expr condition true false) s r"
    by simp
next
  show "evaluates fo
           (Program [If_expr (BooleanLiteral False) (Assign x (IntLiteral 1)) (Assign x (IntLiteral 2)),
                     Variable x])
           EmptyState
           (Return (VInt 2) Integer (State x (VInt 2) Integer (Some EmptyState)), [])"
    by (rule evaluatesI[of _ "Suc (Suc (Suc (Suc (Suc 0))))"])
       (simp add: ret_def raise_def set_value_def)
qed

theorem conditional_short_circuit_witness:
  "evaluates exact_ops (BooleanLiteral True) EmptyState
     (Return (VBool True) Boolean EmptyState, []) \<and>
   evaluates exact_ops
     (If_expr (BooleanLiteral True) (Print (IntLiteral 1)) (Print (Assign ''x'' (IntLiteral 2))))
     EmptyState (Return (VInt 1) Integer EmptyState, [PrintValue (VInt 1)])"
proof -
  have c: "evaluates exact_ops (BooleanLiteral True) EmptyState
             (Return (VBool True) Boolean EmptyState, [])"
    by (rule evaluatesI[of _ "Suc 0"]) (simp add: ret_def)
  have t: "evaluates exact_ops (Print (IntLiteral 1)) EmptyState
             (Return (VInt 1) Integer EmptyState, [PrintValue (VInt 1)])"
    by (rule evaluatesI[of _ "Suc (Suc 0)"]) (simp add: ret_def)
  from conditional_short_circuit[OF c, of "Print (IntLiteral 1)"
      "Print (Assign ''x'' (IntLiteral 2))"
      "(Return (VInt 1) Integer EmptyState, [PrintValue (VInt 1)])"] c t
  show ?thesis by auto
qed

subsection \<open>Variables bound to the Unit value\<close>

text \<open>
  C10. A name bound to a value of type \<open>Unit\<close> is bound: a reference to it returns that
  value with type \<open>Unit\<close> and the chain unchanged, and does not raise
  \<open>InterpSyntaxError\<close>. So \<open>Assign(x, Ren())\<close> followed by a reference to \<open>x\<close> returns
  the Unit value, from every chain in which \<open>x\<close> is not yet bound with another type.
\<close>

theorem unit_binding_is_read:
  "(get_value s x = Some (v, Unit) \<longrightarrow> evaluates fo (Variable x) s (Return v Unit s, [])) \<and>
   (get_value s x = None \<or> (\<exists>v0. get_value s x = Some (v0, Unit)) \<longrightarrow>
      evaluates fo (Program [Assign x Ren, Variable x]) s
        (Return VNone Unit (set_value s x VNone Unit), []))"
proof (intro conjI impI)
  assume "get_value s x = Some (v, Unit)"
  then have "evaluate fo (Suc 0) (Variable x) s = Some (Return v Unit s, [])"
    by (simp add: ret_def)
  then show "evaluates fo (Variable x) s (Return v Unit s, [])"
    by (rule evaluatesI)
next
  assume "get_value s x = None \<or> (\<exists>v0. get_value s x = Some (v0, Unit))"
  then have "evaluate fo (Suc (Suc (Suc (Suc 0)))) (Program [Assign x Ren, Variable x]) s =
      Some (Return VNone Unit (set_value s x VNone Unit), [])"
    by (auto simp: ret_def raise_def set_value_def split: option.splits)
  then show "evaluates fo (Program [Assign x Ren, Variable x]) s
      (Return VNone Unit (set_value s x VNone Unit), [])"
    by (rule evaluatesI)
qed

theorem unit_binding_is_read_witness:
  "get_value (State ''x'' VNone Unit (Some EmptyState)) ''x'' = Some (VNone :: real val, Unit) \<and>
   evaluates exact_ops (Variable ''x'') (State ''x'' VNone Unit (Some EmptyState))
     (Return VNone Unit (State ''x'' VNone Unit (Some EmptyState)), []) \<and>
   get_value (EmptyState :: real state) ''x'' = None \<and>
   evaluates exact_ops (Program [Assign ''x'' Ren, Variable ''x'']) EmptyState
     (Return VNone Unit (State ''x'' VNone Unit (Some EmptyState)), [])"
  using unit_binding_is_read[of "State ''x'' VNone Unit (Some EmptyState)" "''x''" VNone exact_ops]
    unit_binding_is_read[of EmptyState "''x''" VNone exact_ops]
  by (simp add: set_value_def)

subsection \<open>Sequences and programs\<close>

lemma and_then_ret: "and_then (ret v t s) k = k v t s"
  by (simp add: ret_def split: option.splits)

lemma and_then_for_exprs_Nil: "and_then x (for_exprs fo n []) = x"
proof (cases x)
  case None
  then show ?thesis by simp
next
  case (Some a)
  obtain r out where "a = (r, out)" by (cases a)
  with Some show ?thesis by (cases r) (simp_all add: ret_def)
qed

lemma and_then_assoc:
  "and_then (and_then x k) k' = and_then x (\<lambda>v t s. and_then (k v t s) k')"
proof (cases x)
  case None
  then show ?thesis by simp
next
  case (Some a)
  obtain r out where a: "a = (r, out)" by (cases a)
  show ?thesis
  proof (cases r)
    case (Raise e)
    with Some a show ?thesis by simp
  next
    case (Return v t s)
    show ?thesis
    proof (cases "k v t s")
      case None
      with Some a Return show ?thesis by simp
    next
      case inner: (Some b)
      obtain r1 out1 where b: "b = (r1, out1)" by (cases b)
      show ?thesis
        using Some a Return inner b by (cases r1) (simp_all split: option.splits)
    qed
  qed
qed

lemma for_exprs_snoc:
  "for_exprs fo n (es @ [e]) v t s =
     and_then (for_exprs fo n es v t s) (\<lambda>_ _ s'. evaluate fo n e s')"
proof (induction es arbitrary: v t s)
  case Nil
  show ?case by (simp add: and_then_for_exprs_Nil and_then_ret)
next
  case (Cons a es)
  have "for_exprs fo n (es @ [e]) =
      (\<lambda>v t s. and_then (for_exprs fo n es v t s) (\<lambda>_ _ s'. evaluate fo n e s'))"
    by (intro ext) (rule Cons.IH)
  then show ?case by (simp add: and_then_assoc)
qed

lemma for_exprs_Suc:
  assumes "for_exprs fo n es v t s = Some r"
  shows "for_exprs fo (Suc n) es v t s = Some r"
proof -
  from fuel_step[of fo n]
  have "le_res (evaluate fo n e s) (evaluate fo (Suc n) e s)" for e s by blast
  then have "le_res (for_exprs fo n es v t s) (for_exprs fo (Suc n) es v t s)"
    by (rule for_exprs_le)
  with assms show ?thesis by (simp add: le_res_def)
qed

lemma evaluate_Program: "evaluate fo n (Program es) s = evaluate fo n (Sequence es) s"
  by (cases n) simp_all

text \<open>
  C8. A \<open>Sequence\<close> of the children \<open>exprs\<close> followed by one more child \<open>expr\<close> runs
  \<open>exprs\<close> first and then \<open>expr\<close> in the chain they left; its result is the result of
  that last child, after the lines printed by the earlier ones. A \<open>Program\<close> has the
  results of the \<open>Sequence\<close> of the same children. With no children both return what the
  Unit literal returns: the absent value, type \<open>Unit\<close> and the chain they were given.
\<close>

theorem sequence_result:
  assumes "evaluates fo (Sequence exprs) s (Return v t s1, o1)"
    and "evaluates fo expr s1 (r, o2)"
  shows "evaluates fo (Sequence (exprs @ [expr])) s (r, o1 @ o2) \<and>
         (evaluates fo (Program es') s' r' \<longleftrightarrow> evaluates fo (Sequence es') s' r') \<and>
         evaluates fo (Sequence []) s0 (Return VNone Unit s0, []) \<and>
         evaluates fo (Program []) s0 (Return VNone Unit s0, []) \<and>
         evaluates fo Ren s0 (Return VNone Unit s0, [])"
proof (intro conjI)
  from assms obtain n
    where sq: "evaluate fo n (Sequence exprs) s = Some (Return v t s1, o1)"
      and last: "evaluate fo n expr s1 = Some (r, o2)"
    by (rule evaluates_common_fuel)
  from sq obtain m where m: "n = Suc m" by (cases n) auto
  from sq m obtain m' where m': "m = Suc m'" by (cases m) auto
  from sq m m' have "for_exprs fo m exprs VNone Unit s = Some (Return v t s1, o1)"
    by (simp add: and_then_ret)
  then have "for_exprs fo n exprs VNone Unit s = Some (Return v t s1, o1)"
    unfolding m by (rule for_exprs_Suc)
  with last have "for_exprs fo n (exprs @ [expr]) VNone Unit s = Some (r, o1 @ o2)"
    by (simp add: for_exprs_snoc)
  then have "evaluate fo (Suc n) (Sequence (exprs @ [expr])) s = Some (r, o1 @ o2)"
    by (simp add: m and_then_ret)
  then show "evaluates fo (Sequence (exprs @ [expr])) s (r, o1 @ o2)"
    by (rule evaluatesI)
next
  show "evaluates fo (Program es') s' r' \<longleftrightarrow> evaluates fo (Sequence es') s' r'"
    by (simp add: evaluates_def evaluate_Program)
next
  show "evaluates fo (Sequence []) s0 (Return VNone Unit s0, [])"
    by (rule evaluatesI[of _ "Suc (Suc 0)"]) (simp add: ret_def)
next
  show "evaluates fo (Program []) s0 (Return VNone Unit s0, [])"
    by (rule evaluatesI[of _ "Suc (Suc 0)"]) (simp add: ret_def)
next
  show "evaluates fo Ren s0 (Return VNone Unit s0, [])"
    by (rule evaluatesI[of _ "Suc 0"]) (simp add: ret_def)
qed

theorem sequence_result_witness:
  "evaluates exact_ops (Sequence [Assign ''x'' (IntLiteral 1)]) EmptyState
     (Return (VInt 1) Integer (State ''x'' (VInt 1) Integer (Some EmptyState)), []) \<and>
   evaluates exact_ops (Add (Variable ''x'') (IntLiteral 1))
     (State ''x'' (VInt 1) Integer (Some EmptyState))
     (Return (VInt 2) Integer (State ''x'' (VInt 1) Integer (Some EmptyState)), []) \<and>
   evaluates exact_ops
     (Sequence [Assign ''x'' (IntLiteral 1), Add (Variable ''x'') (IntLiteral 1)]) EmptyState
     (Return (VInt 2) Integer (State ''x'' (VInt 1) Integer (Some EmptyState)), [])"
proof -
  have a: "evaluates exact_ops (Sequence [Assign ''x'' (IntLiteral 1)]) EmptyState
     (Return (VInt 1) Integer (State ''x'' (VInt 1) Integer (Some EmptyState)), [])"
    by (rule evaluatesI[of _ "Suc (Suc (Suc (Suc 0)))"]) (simp add: ret_def set_value_def)
  have b: "evaluates exact_ops (Add (Variable ''x'') (IntLiteral 1))
     (State ''x'' (VInt 1) Integer (Some EmptyState))
     (Return (VInt 2) Integer (State ''x'' (VInt 1) Integer (Some EmptyState)), [])"
    by (rule evaluatesI[of _ "Suc (Suc 0)"]) (simp add: ret_def)
  from sequence_result[OF a b] a b show ?thesis by simp
qed

subsection \<open>The accumulating loop\<close>

text \<open>
  C4. Take two different names, a counter and a sum, both bound to the integer \<open>0\<close> with
  type \<open>Integer\<close>. The loop with the condition \<open>counter < 5\<close> whose body adds the counter
  to the sum and then adds \<open>1\<close> to the counter comes back: it returns \<open>False\<close> with type
  \<open>Boolean\<close>, prints nothing, and leaves a chain in which the sum is bound to \<open>10\<close> and
  the counter to \<open>5\<close>, both with type \<open>Integer\<close>.
\<close>

theorem while_accumulation:
  assumes "ctr \<noteq> tot"
    and "get_value s ctr = Some (VInt 0, Integer)"
    and "get_value s tot = Some (VInt 0, Integer)"
  shows "\<exists>s'. evaluates fo
           (While (Lt (Variable ctr) (IntLiteral 5))
              (Sequence [Assign tot (Add (Variable tot) (Variable ctr)),
                         Assign ctr (Add (Variable ctr) (IntLiteral 1))]))
           s (Return (VBool False) Boolean s', []) \<and>
         get_value s' tot = Some (VInt 10, Integer) \<and>
         get_value s' ctr = Some (VInt 5, Integer)"
proof -
  let ?loop = "While (Lt (Variable ctr) (IntLiteral 5))
              (Sequence [Assign tot (Add (Variable tot) (Variable ctr)),
                         Assign ctr (Add (Variable ctr) (IntLiteral 1))])"
  let ?step = "\<lambda>i a s. set_value (set_value s tot (VInt (a + i)) Integer) ctr (VInt (i + 1)) Integer"
  let ?s5 = "?step 4 6 (?step 3 3 (?step 2 1 (?step 1 0 (?step 0 0 s))))"
  have "evaluate fo 12 ?loop s = Some (Return (VBool False) Boolean ?s5, [])"
    using assms
    by (simp add: eval_nat_numeral ret_def raise_def set_value_def compare_def)
  then have "evaluates fo ?loop s (Return (VBool False) Boolean ?s5, [])"
    by (rule evaluatesI)
  moreover have "get_value ?s5 tot = Some (VInt 10, Integer)"
    using assms by (simp add: set_value_def)
  moreover have "get_value ?s5 ctr = Some (VInt 5, Integer)"
    by (simp add: set_value_def)
  ultimately show ?thesis by blast
qed

theorem while_accumulation_witness:
  "''i'' \<noteq> ''sum'' \<and>
   get_value (State ''sum'' (VInt 0) Integer (Some (State ''i'' (VInt 0) Integer (Some EmptyState))))
     ''i'' = Some (VInt 0 :: real val, Integer) \<and>
   get_value (State ''sum'' (VInt 0) Integer (Some (State ''i'' (VInt 0) Integer (Some EmptyState))))
     ''sum'' = Some (VInt 0 :: real val, Integer) \<and>
   (\<exists>s'. evaluates exact_ops
           (While (Lt (Variable ''i'') (IntLiteral 5))
              (Sequence [Assign ''sum'' (Add (Variable ''sum'') (Variable ''i'')),
                         Assign ''i'' (Add (Variable ''i'') (IntLiteral 1))]))
           (State ''sum'' (VInt 0) Integer (Some (State ''i'' (VInt 0) Integer (Some EmptyState))))
           (Return (VBool False) Boolean s', []) \<and>
         get_value s' ''sum'' = Some (VInt 10, Integer) \<and>
         get_value s' ''i'' = Some (VInt 5, Integer))"
  using while_accumulation[of "''i''" "''sum''"
      "State ''sum'' (VInt 0) Integer (Some (State ''i'' (VInt 0) Integer (Some EmptyState)))"
      exact_ops]
  by simp

subsection \<open>Values stay paired with the type of their kind\<close>

lemma well_paired_iff:
  "well_paired v Unit \<longleftrightarrow> v = VNone"
  "well_paired v Integer \<longleftrightarrow> (\<exists>i. v = VInt i)"
  "well_paired v FloatingPoint \<longleftrightarrow> (\<exists>x. v = VFloat x)"
  "well_paired v String \<longleftrightarrow> (\<exists>str. v = VStr str)"
  "well_paired v Boolean \<longleftrightarrow> (\<exists>b. v = VBool b)"
  by (cases v; simp)+

lemma get_value_paired:
  "paired_state s \<Longrightarrow> get_value s x = Some (v, t) \<Longrightarrow> well_paired v t"
  by (induction s x rule: get_value.induct) (auto split: if_splits option.splits)

lemma sound_res_simps:
  "sound_res None"
  "sound_res (ret v t s) \<longleftrightarrow> well_paired v t \<and> paired_state s"
  "sound_res (Some (Return v t s, out)) \<longleftrightarrow> well_paired v t \<and> paired_state s"
  "sound_res (raise e) \<longleftrightarrow> e \<noteq> HostError"
  by (simp_all add: sound_res_def ret_def raise_def)

lemma and_then_sound:
  assumes "sound_res x"
    and "\<And>v t s. well_paired v t \<Longrightarrow> paired_state s \<Longrightarrow> sound_res (k v t s)"
  shows "sound_res (and_then x k)"
proof (cases x)
  case None
  then show ?thesis by (simp add: sound_res_def)
next
  case (Some a)
  obtain r out where a: "a = (r, out)" by (cases a)
  show ?thesis
  proof (cases r)
    case (Raise e)
    with assms(1) Some a show ?thesis by (simp add: sound_res_def)
  next
    case (Return v t s)
    with assms(1) Some a have "well_paired v t" "paired_state s"
      by (simp_all add: sound_res_def)
    from assms(2)[OF this] Some a Return show ?thesis
      by (auto simp: sound_res_def split: option.splits outcome.splits)
  qed
qed

lemma compare_sound:
  assumes "well_paired lv lt" and "well_paired rv rt" and "paired_state s"
  shows "sound_res (compare (py_lt fo lv rv) u lt rt s)"
    and "sound_res (compare (py_le fo lv rv) u lt rt s)"
    and "sound_res (compare (py_gt fo lv rv) u lt rt s)"
    and "sound_res (compare (py_ge fo lv rv) u lt rt s)"
    and "sound_res (compare (py_eq fo lv rv) u lt rt s)"
    and "sound_res (compare (py_ne fo lv rv) u lt rt s)"
  using assms
  by (cases lt; cases rt; auto simp: compare_def sound_res_simps well_paired_iff)+

lemma for_exprs_sound:
  assumes E: "\<And>e s. paired_state s \<Longrightarrow> sound_res (evaluate fo m e s)"
  shows "well_paired v t \<Longrightarrow> paired_state s \<Longrightarrow> sound_res (for_exprs fo m es v t s)"
proof (induction es arbitrary: v t s)
  case Nil
  then show ?case by (simp add: sound_res_simps)
next
  case (Cons e es)
  then show ?case by (auto intro!: and_then_sound E)
qed

lemma while_loop_step_sound:
  assumes E: "\<And>e s. paired_state s \<Longrightarrow> sound_res (evaluate fo m e s)"
    and W: "\<And>v t s. well_paired v t \<Longrightarrow> paired_state s \<Longrightarrow>
              sound_res (while_loop fo m c b v t s)"
  shows "well_paired v t \<Longrightarrow> paired_state s \<Longrightarrow> sound_res (while_loop fo (Suc m) c b v t s)"
  by (auto intro!: and_then_sound E W simp: sound_res_simps well_paired_iff split: type.splits)

lemma evaluate_step_sound:
  assumes E: "\<And>e s. paired_state s \<Longrightarrow> sound_res (evaluate fo m e s)"
    and W: "\<And>c b v t s. well_paired v t \<Longrightarrow> paired_state s \<Longrightarrow>
              sound_res (while_loop fo m c b v t s)"
  shows "paired_state s \<Longrightarrow> sound_res (evaluate fo (Suc m) e s)"
proof (cases e)
  case (Variable x)
  assume "paired_state s"
  then show ?thesis
    using Variable get_value_paired[of s x]
    by (auto simp: sound_res_simps split: option.splits)
qed (auto intro!: and_then_sound E W for_exprs_sound compare_sound
       simp: sound_res_simps well_paired_iff set_value_def py_and_def py_or_def py_not_def
         Let_def
       split: type.splits option.splits)

text \<open>
  From a well-paired chain, and so from \<open>EmptyState\<close>, no call of \<open>evaluate\<close> ends in
  \<open>HostError\<close>, and what it returns is well paired again.
\<close>

lemma evaluate_sound:
  "(\<forall>e s. paired_state s \<longrightarrow> sound_res (evaluate fo n e s)) \<and>
   (\<forall>c b v t s. well_paired v t \<longrightarrow> paired_state s \<longrightarrow>
      sound_res (while_loop fo n c b v t s))"
proof (induction n)
  case 0
  show ?case by (simp add: sound_res_simps)
next
  case (Suc n)
  then have E: "\<And>e s. paired_state s \<Longrightarrow> sound_res (evaluate fo n e s)"
    and W: "\<And>c b v t s. well_paired v t \<Longrightarrow> paired_state s \<Longrightarrow>
              sound_res (while_loop fo n c b v t s)"
    by blast+
  show ?case
    using evaluate_step_sound[of fo n, OF E W] while_loop_step_sound[of fo n, OF E W]
    by blast
qed

lemma run_stimpl_no_host_error: "run_stimpl fo n program \<noteq> Some (Raise HostError, out)"
proof -
  from evaluate_sound[of fo n] have "sound_res (evaluate fo n program EmptyState)"
    by simp
  then show ?thesis by (auto simp: run_stimpl_def sound_res_def)
qed

end
